theory Spec2Isabelle
  imports Complex_Main
begin

section \<open>Data model\<close>

text \<open>
  JavaScript numbers are modelled as reals; NaN and the infinities have no counterpart.
  The joint integrator is modelled in exact real arithmetic. The particle simulator,
  whose floor test and spawn budget depend on rounding, carries the rounding of every
  double operation and of every \<^verbatim>\<open>Float32Array\<close> store.
  Strings are \<^typ>\<open>string\<close>, so a spec string ranges over the code units below 256.
\<close>

datatype Page = Home | Textbook | Insights | Lab | Search | Simulation | Diagnostics
  | Energy | Connectivity

record RoboticComponent =
  name :: string
  type :: string
  spec :: string
  icon :: string

text \<open>The object held by \<^verbatim>\<open>simRef.current\<close>.\<close>

record JointState =
  theta1 :: real
  omega1 :: real
  theta2 :: real
  omega2 :: real

text \<open>
  The state of the \<^verbatim>\<open>App\<close> component that the physics loop reads and writes.
  \<^verbatim>\<open>installedComponents\<close> is a \<^verbatim>\<open>Record<string, RoboticComponent>\<close>: an association
  list in insertion order, looked up with \<^const>\<open>map_of\<close>. \<^verbatim>\<open>jointState\<close> is the pair
  \<^verbatim>\<open>{theta1, theta2}\<close> published to the viewer.
\<close>

record App =
  currentPage :: Page
  gravity :: real
  friction :: real
  torque :: real
  simRunning :: bool
  isEmergencyStopped :: bool
  installedComponents :: "(string \<times> RoboticComponent) list"
  simRef :: JointState
  jointState :: "real \<times> real"

definition COMPONENTS :: "RoboticComponent list" where
  "COMPONENTS =
    [\<lparr>name = ''NVIDIA Jetson AGX Orin'', type = ''Compute'', spec = ''275 TOPS'', icon = ''Cpu''\<rparr>,
     \<lparr>name = ''Unitree H1 Torque Motor'', type = ''Actuator'', spec = ''360 Nm Peak'', icon = ''Zap''\<rparr>,
     \<lparr>name = ''Ouster OS1 LiDAR'', type = ''Sensor'', spec = ''128 Channels'', icon = ''Eye''\<rparr>,
     \<lparr>name = ''Industrial Weld Gun'', type = ''Tool'', spec = ''10kA Resistance'', icon = ''Hammer''\<rparr>,
     \<lparr>name = ''Titanium Skeleton'', type = ''Chassis'', spec = ''6061-T6 Grade'', icon = ''Shield''\<rparr>]"

section \<open>String primitives used by the integrator\<close>

text \<open>\<^verbatim>\<open>String.prototype.includes\<close>: the pattern occurs as a contiguous substring.\<close>

fun includes_js :: "string \<Rightarrow> string \<Rightarrow> bool" where
  "includes_js [] pat = (pat = [])"
| "includes_js (c # cs) pat = (take (length pat) (c # cs) = pat \<or> includes_js cs pat)"

text \<open>
  \<^verbatim>\<open>parseInt(s)\<close> with no radix, after ECMA-262: leading white space is trimmed, one sign
  is read, a \<^verbatim>\<open>0x\<close>/\<^verbatim>\<open>0X\<close> prefix selects radix 16, the longest prefix of digits is
  converted, and an empty digit prefix gives NaN (here \<^const>\<open>None\<close>). The result is
  the exact integer the digits denote; the source holds it in a double.
\<close>

definition isWhiteSpace :: "char \<Rightarrow> bool" where
  "isWhiteSpace c = (of_char c \<in> {9, 10, 11, 12, 13, 32, 160 :: nat})"

definition digitValue :: "char \<Rightarrow> nat option" where
  "digitValue c =
    (let n = (of_char c :: nat) in
     if 48 \<le> n \<and> n \<le> 57 then Some (n - 48)
     else if 97 \<le> n \<and> n \<le> 122 then Some (n - 87)
     else if 65 \<le> n \<and> n \<le> 90 then Some (n - 55)
     else None)"

definition isRadixDigit :: "nat \<Rightarrow> char \<Rightarrow> bool" where
  "isRadixDigit R c = (case digitValue c of None \<Rightarrow> False | Some d \<Rightarrow> d < R)"

definition mathInt :: "nat \<Rightarrow> string \<Rightarrow> nat" where
  "mathInt R Z = foldl (\<lambda>acc c. acc * R + (case digitValue c of Some d \<Rightarrow> d | None \<Rightarrow> 0)) 0 Z"

definition parseInt :: "string \<Rightarrow> int option" where
  "parseInt inputString =
    (let S = dropWhile isWhiteSpace inputString;
         sign = (if S \<noteq> [] \<and> hd S = CHR ''-'' then - 1 else (1 :: int));
         S = (if S \<noteq> [] \<and> (hd S = CHR ''+'' \<or> hd S = CHR ''-'') then tl S else S);
         hex = (2 \<le> length S \<and> (take 2 S = ''0x'' \<or> take 2 S = ''0X''));
         R = (if hex then 16 else 10);
         S = (if hex then drop 2 S else S);
         Z = takeWhile (isRadixDigit R) S
     in if Z = [] then None else Some (sign * int (mathInt R Z)))"

section \<open>Joint dynamics integrator\<close>

text \<open>
  The torque capacity computed at the head of \<^verbatim>\<open>render\<close>: 100 unless an actuator is
  installed whose spec contains \<^verbatim>\<open>Nm\<close> and parses to a number.
\<close>

definition maxTorqueCapacity :: "(string \<times> RoboticComponent) list \<Rightarrow> real" where
  "maxTorqueCapacity ic =
    (case map_of ic ''Actuator'' of
       None \<Rightarrow> 100
     | Some actuator \<Rightarrow>
         if includes_js (spec actuator) ''Nm''
         then (case parseInt (spec actuator) of None \<Rightarrow> 100 | Some parsed \<Rightarrow> of_int parsed)
         else 100)"

definition chassisEffect :: "(string \<times> RoboticComponent) list \<Rightarrow> real" where
  "chassisEffect ic = (case map_of ic ''Chassis'' of Some c \<Rightarrow> 0.8 | None \<Rightarrow> 1.0)"

text \<open>
  One call of \<^verbatim>\<open>render\<close>: the four assignments to \<^verbatim>\<open>simRef.current\<close> in the order of
  the source (each reads the fields as the previous ones left them), then
  \<^verbatim>\<open>setJointState\<close>.
\<close>

definition render :: "App \<Rightarrow> App" where
  "render st =
    (let dt = 0.016;
         g = gravity st;
         damping = friction st * 5 * chassisEffect (installedComponents st);
         appliedTorque = (torque st / 100) * maxTorqueCapacity (installedComponents st) * 0.5;
         s = simRef st;
         s = s\<lparr>omega1 := omega1 s + (appliedTorque - g * sin (theta1 s) - omega1 s * damping) * dt\<rparr>;
         s = s\<lparr>theta1 := theta1 s + omega1 s * dt\<rparr>;
         s = s\<lparr>omega2 := omega2 s + (- g * sin (theta2 s) - omega2 s * damping) * dt\<rparr>;
         s = s\<lparr>theta2 := theta2 s + omega2 s * dt\<rparr>
     in st\<lparr>simRef := s, jointState := (theta1 s, theta2 s)\<rparr>)"

text \<open>
  One animation frame of the physics effect. The effect returns before starting the loop
  when the page is not the simulation page, the simulation is stopped, or the emergency
  stop is set, and its cleanup cancels a running loop when any of these changes; so a
  frame calls \<^const>\<open>render\<close> exactly when the guard lets it through.
\<close>

definition physicsFrame :: "App \<Rightarrow> App" where
  "physicsFrame st =
    (if currentPage st \<noteq> Simulation \<or> \<not> simRunning st \<or> isEmergencyStopped st then st
     else render st)"

text \<open>The \<^verbatim>\<open>Reset Vectors\<close> button.\<close>

definition resetVectors :: "App \<Rightarrow> App" where
  "resetVectors st = st\<lparr>simRef := \<lparr>theta1 = pi / 4, omega1 = 0, theta2 = pi / 6, omega2 = 0\<rparr>\<rparr>"

text \<open>The state \<^verbatim>\<open>App\<close> starts with, on a given page.\<close>

definition initialApp :: "Page \<Rightarrow> App" where
  "initialApp p =
    \<lparr>currentPage = p, gravity = 9.8, friction = 0.1, torque = 50, simRunning = True,
     isEmergencyStopped = False,
     installedComponents = [(''Actuator'', COMPONENTS ! 1), (''Tool'', COMPONENTS ! 3)],
     simRef = \<lparr>theta1 = pi / 4, omega1 = 0, theta2 = pi / 6, omega2 = 0\<rparr>,
     jointState = (pi / 4, pi / 6)\<rparr>"

section \<open>Floating-point rounding\<close>

text \<open>
  The particle simulator computes in doubles and keeps its buffers in
  \<^verbatim>\<open>Float32Array\<close>s, so every arithmetic result is rounded to a double and every
  buffer store is rounded again to a float32. The model carries both roundings, and
  \<^verbatim>\<open>Math.cos\<close> and \<^verbatim>\<open>Math.sin\<close>, as the fields of a record that the simulator takes as
  an argument; what is proved of the simulator holds for every such record. Numbers
  stay reals: a finite double or float32 is the real it denotes, and NaN and the
  infinities have no counterpart.
\<close>

record Numerics =
  dbl :: "real \<Rightarrow> real"
  f32 :: "real \<Rightarrow> real"
  Math_cos :: "real \<Rightarrow> real"
  Math_sin :: "real \<Rightarrow> real"

text \<open>
  IEEE 754 rounding to nearest, ties to even, for a binary format with \<open>p\<close> significant
  bits and least normal exponent \<open>emin\<close>: the argument is scaled by the unit in the
  last place of its binade (of the least binade below \<open>emin\<close>, which gives the
  subnormals) and rounded to an integer. Overflow is not represented.
\<close>

definition roundTiesToEven :: "real \<Rightarrow> int" where
  "roundTiesToEven x =
    (let f = \<lfloor>x\<rfloor>; d = x - of_int f
     in if d < 1 / 2 then f else if 1 / 2 < d then f + 1 else if even f then f else f + 1)"

definition ieeeRound :: "nat \<Rightarrow> int \<Rightarrow> real \<Rightarrow> real" where
  "ieeeRound p emin x =
    (if x = 0 then 0
     else (let e = max \<lfloor>log 2 \<bar>x\<bar>\<rfloor> emin;
               q = 2 powr of_int (e - (int p - 1))
           in of_int (roundTiesToEven (x / q)) * q))"

text \<open>
  The arithmetic of a JavaScript engine: binary64 results, binary32 stores. ECMAScript
  leaves the accuracy of \<^verbatim>\<open>Math.cos\<close> and \<^verbatim>\<open>Math.sin\<close> to the implementation; here they
  are the correctly rounded values.
\<close>

definition ieee :: Numerics where
  "ieee =
    \<lparr>dbl = ieeeRound 53 (- 1022), f32 = ieeeRound 24 (- 126),
     Math_cos = (\<lambda>x. ieeeRound 53 (- 1022) (cos x)),
     Math_sin = (\<lambda>x. ieeeRound 53 (- 1022) (sin x))\<rparr>"

section \<open>Particle lifecycle simulator\<close>

definition MAX_SPARKS :: nat where
  "MAX_SPARKS = 800"

text \<open>
  The three buffers of the spatter geometry (\<^verbatim>\<open>position\<close>, \<^verbatim>\<open>aLife\<close>, \<^verbatim>\<open>aVelocity\<close>),
  flat as in the source: slot \<open>i\<close> owns \<open>lifes ! i\<close> and the entries \<open>i * 3\<close>,
  \<open>i * 3 + 1\<close>, \<open>i * 3 + 2\<close> of the other two.
\<close>

record Spatter =
  positions :: "real list"
  lifes :: "real list"
  vels :: "real list"

text \<open>
  The state of the slot loop: the buffers, the local counter \<^verbatim>\<open>spawned\<close>, and the number
  of \<^verbatim>\<open>Math.random()\<close> calls made so far. The values that \<^verbatim>\<open>Math.random()\<close> returns
  are a sequence \<open>random\<close>, read in call order.
\<close>

record SpatterLoop = Spatter +
  spawned :: int
  calls :: nat

definition wfSpatter :: "'a Spatter_scheme \<Rightarrow> bool" where
  "wfSpatter s = (length (positions s) = MAX_SPARKS * 3 \<and> length (lifes s) = MAX_SPARKS
     \<and> length (vels s) = MAX_SPARKS * 3)"

text \<open>
  The body of the spawn branch, up to but excluding \<^verbatim>\<open>spawned++\<close>. A decimal literal of
  the source is the double nearest to it (\<open>dbl N 0.05\<close>); the literals 0, 0.5, 1.0,
  1.5, 2 and 20 are doubles and float32 values themselves and are written as they are. Each product
  and sum is rounded to a double, each store into \<^verbatim>\<open>vels\<close> to a float32.
\<close>

definition activate :: "Numerics \<Rightarrow> (nat \<Rightarrow> real) \<Rightarrow> nat \<Rightarrow> SpatterLoop \<Rightarrow> SpatterLoop" where
  "activate N random i s =
    (let s = s\<lparr>lifes := (lifes s)[i := 1.0]\<rparr>;
         s = s\<lparr>positions := (positions s)[i * 3 := 0, i * 3 + 1 := 0, i * 3 + 2 := 0.5]\<rparr>;
         angle = dbl N (dbl N (random (calls s) * dbl N pi) * 2);
         s = s\<lparr>calls := calls s + 1\<rparr>;
         spread = dbl N (dbl N 0.05 + dbl N (random (calls s) * dbl N 0.2));
         s = s\<lparr>calls := calls s + 1\<rparr>;
         s = s\<lparr>vels := (vels s)[i * 3 := f32 N (dbl N (Math_cos N angle * spread))]\<rparr>;
         s = s\<lparr>vels := (vels s)[i * 3 + 1 := f32 N (dbl N (Math_sin N angle * spread))]\<rparr>;
         s = s\<lparr>vels := (vels s)[i * 3 + 2 :=
               f32 N (dbl N (dbl N 0.1 + dbl N (random (calls s) * dbl N 0.3)))]\<rparr>
     in s\<lparr>calls := calls s + 1\<rparr>)"

text \<open>
  The \<^verbatim>\<open>else\<close> branch of the loop body: a slot with \<^verbatim>\<open>lifes[i] > 0\<close>. Each compound
  assignment reads the buffer, computes in doubles and stores the float32 nearest to the
  result; the floor test reads the stored \<open>y\<close> position back.
\<close>

definition advance :: "Numerics \<Rightarrow> (nat \<Rightarrow> real) \<Rightarrow> real \<Rightarrow> nat \<Rightarrow> SpatterLoop \<Rightarrow> SpatterLoop" where
  "advance N random lifeMult i s =
    (let s = s\<lparr>positions := (positions s)[i * 3 :=
               f32 N (dbl N (positions s ! (i * 3) + vels s ! (i * 3)))]\<rparr>;
         s = s\<lparr>positions := (positions s)[i * 3 + 1 :=
               f32 N (dbl N (positions s ! (i * 3 + 1) + vels s ! (i * 3 + 1)))]\<rparr>;
         s = s\<lparr>positions := (positions s)[i * 3 + 2 :=
               f32 N (dbl N (positions s ! (i * 3 + 2) + vels s ! (i * 3 + 2)))]\<rparr>;
         s = s\<lparr>vels := (vels s)[i * 3 + 1 := f32 N (dbl N (vels s ! (i * 3 + 1) - dbl N 0.01))]\<rparr>;
         s = s\<lparr>lifes := (lifes s)[i :=
               f32 N (dbl N (lifes s ! i
                 - dbl N (dbl N (dbl N 0.015 + dbl N (random (calls s) * dbl N 0.01))
                     / max (dbl N 0.1) lifeMult)))]\<rparr>;
         s = s\<lparr>calls := calls s + 1\<rparr>
     in if positions s ! (i * 3 + 1) < - 1.5 then s\<lparr>lifes := (lifes s)[i := 0]\<rparr> else s)"

text \<open>
  One iteration of \<^verbatim>\<open>for (let i = 0; i < MAX_SPARKS; i++)\<close>. The \<^verbatim>\<open>&&\<close> short-circuits:
  \<^verbatim>\<open>Math.random()\<close> is called only while \<^verbatim>\<open>spawned < spawnRate\<close>.
\<close>

definition spatterStep ::
  "Numerics \<Rightarrow> (nat \<Rightarrow> real) \<Rightarrow> int \<Rightarrow> real \<Rightarrow> nat \<Rightarrow> SpatterLoop \<Rightarrow> SpatterLoop" where
  "spatterStep N random spawnRate lifeMult i s =
    (if lifes s ! i \<le> 0 then
       (if spawned s < spawnRate then
          (let r = random (calls s);
               s = s\<lparr>calls := calls s + 1\<rparr>
           in if r < dbl N 0.3 then (let s = activate N random i s in s\<lparr>spawned := spawned s + 1\<rparr>)
              else s)
        else s)
     else advance N random lifeMult i s)"

text \<open>The refs of \<^verbatim>\<open>Robot3DViewer\<close> that the spatter update reads.\<close>

record Viewer =
  isRunningRef :: bool
  isEmergencyStoppedRef :: bool
  hasToolRef :: bool
  spatterDensityRef :: real
  spatterLifeRef :: real
  spatterRef :: "Spatter option"

text \<open>
  The slot loop on reaching slot \<open>n\<close>: \<^verbatim>\<open>spawnRate\<close> is \<^verbatim>\<open>Math.floor\<close> of the double
  product \<^verbatim>\<open>density * 20\<close>, \<^verbatim>\<open>spawned\<close> starts at 0, and the slots below \<open>n\<close> have been
  visited in order. The whole loop is the state on reaching \<^verbatim>\<open>MAX_SPARKS\<close>.
\<close>

definition spatterPrefix ::
  "Numerics \<Rightarrow> (nat \<Rightarrow> real) \<Rightarrow> real \<Rightarrow> real \<Rightarrow> Spatter \<Rightarrow> nat \<Rightarrow> SpatterLoop" where
  "spatterPrefix N random density lifeMult spatter n =
    (let spawnRate = \<lfloor>dbl N (density * 20)\<rfloor>
     in fold (spatterStep N random spawnRate lifeMult) [0..<n]
          (Spatter.extend spatter \<lparr>spawned = 0, calls = 0\<rparr>))"

definition spatterLoop ::
  "Numerics \<Rightarrow> (nat \<Rightarrow> real) \<Rightarrow> real \<Rightarrow> real \<Rightarrow> Spatter \<Rightarrow> SpatterLoop" where
  "spatterLoop N random density lifeMult spatter =
    spatterPrefix N random density lifeMult spatter MAX_SPARKS"

definition clearLifes :: "real list \<Rightarrow> real list" where
  "clearLifes ls = fold (\<lambda>i l. l[i := 0]) [0..<MAX_SPARKS] ls"

text \<open>
  The spatter update of \<^verbatim>\<open>animate\<close>. The shader uniforms and the \<^verbatim>\<open>needsUpdate\<close> flags
  are rendering state and are left out.
\<close>

definition spatterUpdate :: "Numerics \<Rightarrow> (nat \<Rightarrow> real) \<Rightarrow> Viewer \<Rightarrow> Viewer" where
  "spatterUpdate N random v =
    (if isRunningRef v \<and> \<not> isEmergencyStoppedRef v \<and> hasToolRef v \<and> spatterRef v \<noteq> None then
       (let spatter = the (spatterRef v);
            density = spatterDensityRef v;
            lifeMult = spatterLifeRef v
        in v\<lparr>spatterRef := Some (Spatter.truncate (spatterLoop N random density lifeMult spatter))\<rparr>)
     else if spatterRef v \<noteq> None then
       (let spatter = the (spatterRef v)
        in v\<lparr>spatterRef := Some (spatter\<lparr>lifes := clearLifes (lifes spatter)\<rparr>)\<rparr>)
     else v)"



subsection \<open>The spawn budget as the specification words it\<close>



section \<open>Health overlay\<close>









section \<open>Concrete inputs\<close>

text \<open>
  The scenario of the specification: the initial state on the simulation page with the
  torque slider at 0 (gravity 9.8, friction 0.1, actuator \<^verbatim>\<open>360 Nm Peak\<close>, no chassis).
\<close>

definition scenarioApp :: App where
  "scenarioApp = (initialApp Simulation)\<lparr>torque := 0\<rparr>"

definition stoppedApp :: App where
  "stoppedApp = (initialApp Simulation)\<lparr>isEmergencyStopped := True\<rparr>"

definition servo :: RoboticComponent where
  "servo = \<lparr>name = ''Servo'', type = ''Actuator'', spec = ''Peak Nm'', icon = ''Zap''\<rparr>"

text \<open>A pool in which every slot is live and already below the floor.\<close>

definition fallingPool :: Spatter where
  "fallingPool = \<lparr>positions = replicate 2400 (- 2), lifes = replicate 800 1, vels = replicate 2400 0\<rparr>"

definition viewerWith :: "bool \<Rightarrow> bool \<Rightarrow> bool \<Rightarrow> Spatter \<Rightarrow> Viewer" where
  "viewerWith running stopped tool sp =
    \<lparr>isRunningRef = running, isEmergencyStoppedRef = stopped, hasToolRef = tool,
     spatterDensityRef = 0.5, spatterLifeRef = 1.0, spatterRef = Some sp\<rparr>"



text \<open>A run of \<^verbatim>\<open>Math.random()\<close> whose first value is 0.5 and every later value 0.\<close>

definition missThenHit :: "nat \<Rightarrow> real" where
  "missThenHit n = (if n = 0 then 0.5 else 0)"



section \<open>The integrator\<close>

lemma parseInt_360: "parseInt ''360 Nm Peak'' = Some 360"
  by (simp add: parseInt_def isWhiteSpace_def isRadixDigit_def digitValue_def mathInt_def Let_def)

lemma parseInt_275: "parseInt ''275 TOPS'' = Some 275"
  by (simp add: parseInt_def isWhiteSpace_def isRadixDigit_def digitValue_def mathInt_def Let_def)

lemma parseInt_Peak: "parseInt ''Peak Nm'' = None"
  by (simp add: parseInt_def isWhiteSpace_def isRadixDigit_def digitValue_def Let_def)

text \<open>
  C1. One call of \<open>render\<close> replaces the joint state by the forward-Euler values of the
  specification, for every joint state and all parameters: the torque
  \<open>(torque / 100) * maxTorqueCapacity * 0.5\<close> enters the first joint only, the damping
  is \<open>friction * 5 * chassisFactor\<close> with \<open>chassisFactor\<close> 0.8 when a chassis is
  installed and 1.0 otherwise, each angle is advanced with the velocity just computed,
  and \<open>dt\<close> is 0.016.
\<close>

theorem render_forward_euler:
  "simRef (render st) =
    (let dt = 0.016;
         chassisFactor = (if map_of (installedComponents st) ''Chassis'' \<noteq> None then 0.8 else 1.0);
         damping = friction st * 5 * chassisFactor;
         appliedTorque = (torque st / 100) * maxTorqueCapacity (installedComponents st) * 0.5;
         omega1' = omega1 (simRef st)
            + dt * (appliedTorque - gravity st * sin (theta1 (simRef st)) - omega1 (simRef st) * damping);
         theta1' = theta1 (simRef st) + dt * omega1';
         omega2' = omega2 (simRef st)
            + dt * (- gravity st * sin (theta2 (simRef st)) - omega2 (simRef st) * damping);
         theta2' = theta2 (simRef st) + dt * omega2'
     in \<lparr>theta1 = theta1', omega1 = omega1', theta2 = theta2', omega2 = omega2'\<rparr>)"
  by (cases "map_of (installedComponents st) ''Chassis''")
     (simp_all add: render_def chassisEffect_def Let_def mult.commute)

lemma frozen_frame: "isEmergencyStopped st \<or> \<not> simRunning st \<Longrightarrow> physicsFrame st = st"
  by (auto simp: physicsFrame_def)

text \<open>
  C2. While the emergency stop is set or the simulation is not running, any number of
  frames leaves the joint state as it is: the freeze keeps the current values, it does
  not reset them.
\<close>

theorem freeze_invariant:
  assumes "isEmergencyStopped st \<or> \<not> simRunning st"
  shows "simRef ((physicsFrame ^^ n) st) = simRef st"
proof -
  have "(physicsFrame ^^ n) st = st"
    by (induction n) (simp_all add: frozen_frame [OF assms])
  then show ?thesis by simp
qed

theorem freeze_invariant_witness:
  "isEmergencyStopped stoppedApp \<and>
   simRef ((physicsFrame ^^ 3) stoppedApp)
     = \<lparr>theta1 = pi / 4, omega1 = 0, theta2 = pi / 6, omega2 = 0\<rparr>"
  using freeze_invariant [of stoppedApp 3]
  by (simp add: stoppedApp_def initialApp_def)

lemma scenario_tick:
  "simRef (physicsFrame scenarioApp) =
    \<lparr>theta1 = pi / 4 + 0.016 * (0.016 * (0 - 9.8 * sin (pi / 4) - 0 * 0.5)),
     omega1 = 0.016 * (0 - 9.8 * sin (pi / 4) - 0 * 0.5),
     theta2 = pi / 6 + 0.016 * (0.016 * (0 - 9.8 * sin (pi / 6) - 0 * 0.5)),
     omega2 = 0.016 * (0 - 9.8 * sin (pi / 6) - 0 * 0.5)\<rparr>"
  by (simp add: physicsFrame_def scenarioApp_def initialApp_def render_def Let_def)

text \<open>
  C4, as the specification states it, fails: after one tick of the scenario the first
  angle is not \<open>pi/4 + 0.016 * (0 - 9.8 * sin (pi/4) - 0 * 0.5)\<close>. That expression is
  \<open>pi/4\<close> plus the new velocity; the code multiplies the new velocity by \<open>dt\<close> once
  more before adding it to the angle.
\<close>

theorem scenario_theta1_counterexample:
  "theta1 (simRef (physicsFrame scenarioApp))
     \<noteq> pi / 4 + 0.016 * (0 - 9.8 * sin (pi / 4) - 0 * 0.5)"
  by (simp add: scenario_tick sin_45)

text \<open>
  C4, amended. After exactly one tick of the scenario the first angle has decreased
  from \<open>pi/4\<close>, the first velocity is negative and equals
  \<open>0.016 * (0 - 9.8 * sin (pi/4) - 0 * 0.5)\<close>, and the new angle is \<open>pi/4\<close> plus
  \<open>0.016\<close> times that velocity.
\<close>

theorem scenario_one_tick:
  "theta1 (simRef (physicsFrame scenarioApp)) < pi / 4 \<and>
   omega1 (simRef (physicsFrame scenarioApp)) < 0 \<and>
   omega1 (simRef (physicsFrame scenarioApp)) = 0.016 * (0 - 9.8 * sin (pi / 4) - 0 * 0.5) \<and>
   theta1 (simRef (physicsFrame scenarioApp))
     = pi / 4 + 0.016 * (0.016 * (0 - 9.8 * sin (pi / 4) - 0 * 0.5))"
  by (simp add: scenario_tick sin_45)

theorem scenario_one_tick_witness:
  "currentPage scenarioApp = Simulation \<and> simRunning scenarioApp \<and>
   \<not> isEmergencyStopped scenarioApp \<and>
   maxTorqueCapacity (installedComponents scenarioApp) = 360 \<and>
   theta1 (simRef (physicsFrame scenarioApp)) \<noteq> pi / 4"
  using scenario_one_tick
  by (simp add: scenarioApp_def initialApp_def maxTorqueCapacity_def COMPONENTS_def parseInt_360)

text \<open>
  C5. When the installed actuator's spec string has no parsable leading integer
  (\<open>parseInt\<close> gives NaN), the torque capacity of the integrator is the default 100.
  The capacity is a value in every case: nothing is raised.
\<close>

theorem capacity_unparsable:
  assumes "map_of ic ''Actuator'' = Some actuator" and "parseInt (spec actuator) = None"
  shows "maxTorqueCapacity ic = 100"
  using assms by (simp add: maxTorqueCapacity_def)

theorem capacity_unparsable_witness:
  "map_of [(''Actuator'', servo)] ''Actuator'' = Some servo \<and>
   includes_js (spec servo) ''Nm'' \<and>
   parseInt (spec servo) = None \<and>
   maxTorqueCapacity [(''Actuator'', servo)] = 100"
  using capacity_unparsable [of "[(''Actuator'', servo)]" servo]
  by (simp add: servo_def parseInt_Peak)

text \<open>
  C10. When the installed actuator's spec string does not contain \<open>Nm\<close>, the torque
  capacity is 100 whatever the string starts with: the leading integer is parsed only
  when \<open>Nm\<close> is present. The witness is the spec \<open>275 TOPS\<close>, which parses to 275
  and still gives 100.
\<close>

theorem capacity_without_Nm:
  assumes "map_of ic ''Actuator'' = Some actuator" and "\<not> includes_js (spec actuator) ''Nm''"
  shows "maxTorqueCapacity ic = 100"
  using assms by (simp add: maxTorqueCapacity_def)

theorem capacity_without_Nm_witness:
  "map_of [(''Actuator'', COMPONENTS ! 0)] ''Actuator'' = Some (COMPONENTS ! 0) \<and>
   spec (COMPONENTS ! 0) = ''275 TOPS'' \<and>
   parseInt (spec (COMPONENTS ! 0)) = Some 275 \<and>
   maxTorqueCapacity [(''Actuator'', COMPONENTS ! 0)] = 100"
proof -
  have s: "spec (COMPONENTS ! 0) = ''275 TOPS''"
    by (simp add: COMPONENTS_def)
  have n: "\<not> includes_js (spec (COMPONENTS ! 0)) ''Nm''"
    by (simp add: s)
  show ?thesis
    using capacity_without_Nm [of "[(''Actuator'', COMPONENTS ! 0)]" "COMPONENTS ! 0"] n s
    by (simp add: parseInt_275)
qed

text \<open>
  C8. After the reset the joint state is exactly \<open>{pi/4, 0, pi/6, 0}\<close>, whatever it was
  before.
\<close>

theorem reset_exact:
  "simRef (resetVectors st) = \<lparr>theta1 = pi / 4, omega1 = 0, theta2 = pi / 6, omega2 = 0\<rparr>"
  by (simp add: resetVectors_def)

section \<open>Rounding\<close>

lemma roundTiesToEven_int: "roundTiesToEven (of_int m) = m"
  by (simp add: roundTiesToEven_def)


text \<open>Rounding a number whose binade is known.\<close>

lemma ieeeRound_at:
  assumes "2 powr of_int k \<le> \<bar>x\<bar>" and "\<bar>x\<bar> < 2 powr of_int (k + 1)"
  shows "ieeeRound p emin x
    = of_int (roundTiesToEven (x / 2 powr of_int (max k emin - (int p - 1))))
        * 2 powr of_int (max k emin - (int p - 1))"
proof -
  have pos: "0 < \<bar>x\<bar>"
    using assms(1) by (smt (verit) powr_gt_zero)
  then have "\<lfloor>log 2 \<bar>x\<bar>\<rfloor> = k"
    using assms by (simp add: floor_log_eq_powr_iff)
  with pos show ?thesis
    by (auto simp: ieeeRound_def Let_def)
qed


text \<open>A number of the format is left as it is.\<close>

lemma ieeeRound_exact:
  assumes bin: "2 powr of_int k \<le> \<bar>x\<bar>" "\<bar>x\<bar> < 2 powr of_int (k + 1)"
    and int: "x / 2 powr of_int (max k emin - (int p - 1)) = of_int m"
  shows "ieeeRound p emin x = x"
proof -
  have "of_int m * 2 powr of_int (max k emin - (int p - 1)) = x"
    using int by (simp add: field_simps)
  then show ?thesis
    unfolding ieeeRound_at [OF bin] int roundTiesToEven_int .
qed


lemma dbl_ieee_neg2: "dbl ieee (- 2) = - 2"
  unfolding ieee_def Numerics.simps
  by (rule ieeeRound_exact [where k = 1 and m = "- (2 ^ 52)"]) (simp_all add: powr_minus)

lemma f32_ieee_neg2: "f32 ieee (- 2) = - 2"
  unfolding ieee_def Numerics.simps
  by (rule ieeeRound_exact [where k = 1 and m = "- (2 ^ 23)"]) (simp_all add: powr_minus)


text \<open>
  Two roundings that change what the simulator does. The double nearest to 0.15 times 20
  is below 3, and its double product is 3: the budget at that density is 3. A slot at
  \<open>y = -1.5\<close> that moves down by \<open>2^-30\<close> is stored at \<open>-1.5\<close> again, so it is not
  below the floor.
\<close>

lemma budget_at_015: "\<lfloor>dbl ieee (5404319552844595 / 2 ^ 55 * 20)\<rfloor> = 3"
proof -
  have "dbl ieee (5404319552844595 / 2 ^ 55 * 20) = 3"
    unfolding ieee_def Numerics.simps
    by (subst ieeeRound_at [where k = 1])
       (simp_all add: powr_minus roundTiesToEven_def Let_def)
  then show ?thesis by simp
qed

lemma store_at_floor: "f32 ieee (dbl ieee (- (3 / 2) + - (1 / 2 ^ 30))) = - (3 / 2)"
proof -
  have "dbl ieee (- (3 / 2) + - (1 / 2 ^ 30)) = - (3 / 2) + - (1 / 2 ^ 30)"
    unfolding ieee_def Numerics.simps
    by (rule ieeeRound_exact [where k = 0 and m = "- (3 * 2 ^ 51 + 2 ^ 22)"])
       (simp_all add: powr_minus)
  moreover have "f32 ieee (- (3 / 2) + - (1 / 2 ^ 30)) = - (3 / 2)"
    unfolding ieee_def Numerics.simps
    by (subst ieeeRound_at [where k = 0])
       (simp_all add: powr_minus roundTiesToEven_def Let_def)
  ultimately show ?thesis by simp
qed

section \<open>The particle pool\<close>

lemma clear_length: "length (fold (\<lambda>i l. l[i := (0::real)]) [0..<n] ls) = length ls"
  by (induction n) simp_all

lemma clear_nth:
  "j < length ls \<Longrightarrow>
    fold (\<lambda>i l. l[i := (0::real)]) [0..<n] ls ! j = (if j < n then 0 else ls ! j)"
proof (induction n)
  case 0
  then show ?case by simp
next
  case (Suc n)
  then show ?case
    by (cases "j = n") (simp_all add: clear_length)
qed

lemma clearLifes_all: "length ls = MAX_SPARKS \<Longrightarrow> clearLifes ls = replicate MAX_SPARKS 0"
  unfolding clearLifes_def
  by (rule nth_equalityI) (simp_all add: clear_length clear_nth)

text \<open>
  C6. When the active predicate is false (not running, or emergency-stopped, or no
  tool), one tick leaves the life of every one of the 800 slots at 0, whatever the
  lives were before.
\<close>

theorem clear_invariant:
  assumes "\<not> (isRunningRef v \<and> \<not> isEmergencyStoppedRef v \<and> hasToolRef v)"
    and "spatterRef v = Some sp" and "length (lifes sp) = MAX_SPARKS"
  shows "map_option lifes (spatterRef (spatterUpdate N random v)) = Some (replicate 800 0)"
  using assms by (auto simp: spatterUpdate_def clearLifes_all MAX_SPARKS_def)

theorem clear_invariant_witness:
  "isEmergencyStoppedRef (viewerWith True True True fallingPool) \<and>
   lifes fallingPool = replicate 800 1 \<and>
   map_option lifes (spatterRef (spatterUpdate ieee missThenHit (viewerWith True True True fallingPool)))
     = Some (replicate 800 0)"
  using clear_invariant [of "viewerWith True True True fallingPool" fallingPool ieee missThenHit]
  by (simp add: viewerWith_def fallingPool_def MAX_SPARKS_def)

lemma activate_lifes: "lifes (activate N random i s) = (lifes s)[i := 1]"
  and activate_spawned: "spawned (activate N random i s) = spawned s"
  and activate_calls: "calls (activate N random i s) = calls s + 3"
  by (simp_all add: activate_def Let_def)


lemma advance_lifes_other: "j \<noteq> i \<Longrightarrow> lifes (advance N random lm i s) ! j = lifes s ! j"
  by (simp add: advance_def Let_def)



lemma step_lifes_other: "j \<noteq> i \<Longrightarrow> lifes (spatterStep N random rate lm i s) ! j = lifes s ! j"
  by (simp add: spatterStep_def Let_def activate_lifes advance_lifes_other)

lemma y_index_neq:
  "j \<noteq> i \<Longrightarrow> i * 3 + 1 \<noteq> j * 3 \<and> i * 3 + 1 \<noteq> j * 3 + 1 \<and> i * 3 + 1 \<noteq> j * 3 + 2"
  for i j :: nat
  by arith

lemma step_wf: "wfSpatter s \<Longrightarrow> wfSpatter (spatterStep N random rate lm i s)"
  by (simp add: wfSpatter_def spatterStep_def activate_def advance_def Let_def)

lemma fold_wf: "wfSpatter s \<Longrightarrow> wfSpatter (fold (spatterStep N random rate lm) js s)"
  by (induction js arbitrary: s) (simp_all add: step_wf)

lemma step_y_other:
  assumes "j \<noteq> i"
  shows "positions (spatterStep N random rate lm j s) ! (i * 3 + 1) = positions s ! (i * 3 + 1)"
    and "vels (spatterStep N random rate lm j s) ! (i * 3 + 1) = vels s ! (i * 3 + 1)"
  using y_index_neq [OF assms]
  by (simp_all add: spatterStep_def activate_def advance_def Let_def)

lemma fold_other:
  "i \<notin> set js \<Longrightarrow>
    lifes (fold (spatterStep N random rate lm) js s) ! i = lifes s ! i \<and>
    positions (fold (spatterStep N random rate lm) js s) ! (i * 3 + 1) = positions s ! (i * 3 + 1) \<and>
    vels (fold (spatterStep N random rate lm) js s) ! (i * 3 + 1) = vels s ! (i * 3 + 1)"
proof (induction js arbitrary: s)
  case Nil
  then show ?case by simp
next
  case (Cons j js)
  then have "j \<noteq> i" and "i \<notin> set js" by auto
  then show ?case
    using Cons.IH [of "spatterStep N random rate lm j s"]
      step_lifes_other [of i j N random rate lm s] step_y_other [of j i N random rate lm s]
    by simp
qed

lemma step_retire:
  assumes "wfSpatter s" and "i < MAX_SPARKS" and "0 < lifes s ! i"
    and "f32 N (dbl N (positions s ! (i * 3 + 1) + vels s ! (i * 3 + 1))) < - 1.5"
  shows "lifes (spatterStep N random rate lm i s) ! i = 0"
    and "positions (spatterStep N random rate lm i s) ! (i * 3 + 1)
          = f32 N (dbl N (positions s ! (i * 3 + 1) + vels s ! (i * 3 + 1)))"
  using assms
  by (simp_all add: wfSpatter_def spatterStep_def advance_def Let_def)

lemma upt_split:
  assumes "i < n"
  shows "[0..<n] = [0..<i] @ i # [Suc i..<n]"
proof -
  have "[0..<i + (n - i)] = [0..<i] @ [i..<i + (n - i)]"
    by (rule upt_add_eq_append) simp
  with assms show ?thesis
    by (simp add: upt_conv_Cons)
qed

lemma loop_retire:
  assumes wf: "wfSpatter s" and i: "i < MAX_SPARKS" and live: "0 < lifes s ! i"
    and below: "f32 N (dbl N (positions s ! (i * 3 + 1) + vels s ! (i * 3 + 1))) < - 1.5"
  shows "lifes (fold (spatterStep N random rate lm) [0..<MAX_SPARKS] s) ! i = 0 \<and>
         positions (fold (spatterStep N random rate lm) [0..<MAX_SPARKS] s) ! (i * 3 + 1)
           = f32 N (dbl N (positions s ! (i * 3 + 1) + vels s ! (i * 3 + 1)))"
proof -
  define a where "a = fold (spatterStep N random rate lm) [0..<i] s"
  define b where "b = spatterStep N random rate lm i a"
  have split: "fold (spatterStep N random rate lm) [0..<MAX_SPARKS] s
      = fold (spatterStep N random rate lm) [Suc i..<MAX_SPARKS] b"
    by (simp add: upt_split [OF i] a_def b_def)
  have pre: "lifes a ! i = lifes s ! i" "positions a ! (i * 3 + 1) = positions s ! (i * 3 + 1)"
    "vels a ! (i * 3 + 1) = vels s ! (i * 3 + 1)"
    using fold_other [of i "[0..<i]" N random rate lm s] by (simp_all add: a_def)
  have wfa: "wfSpatter a"
    by (simp add: a_def fold_wf wf)
  have at: "lifes b ! i = 0"
    "positions b ! (i * 3 + 1) = f32 N (dbl N (positions s ! (i * 3 + 1) + vels s ! (i * 3 + 1)))"
    using step_retire [OF wfa i, of N random rate lm] live below pre by (simp_all add: b_def)
  have post: "lifes (fold (spatterStep N random rate lm) [Suc i..<MAX_SPARKS] b) ! i = lifes b ! i"
    "positions (fold (spatterStep N random rate lm) [Suc i..<MAX_SPARKS] b) ! (i * 3 + 1)
       = positions b ! (i * 3 + 1)"
    using fold_other [of i "[Suc i..<MAX_SPARKS]" N random rate lm b] by simp_all
  show ?thesis
    using post at by (simp add: split)
qed

lemma extend_fields:
  "lifes (Spatter.extend sp m) = lifes sp" "positions (Spatter.extend sp m) = positions sp"
  "vels (Spatter.extend sp m) = vels sp"
  "lifes (Spatter.truncate s) = lifes s" "positions (Spatter.truncate s) = positions s"
  "vels (Spatter.truncate s) = vels s"
  by (simp_all add: Spatter.extend_def Spatter.truncate_def)

lemma extend_wf: "wfSpatter (Spatter.extend sp m) = wfSpatter sp"
  by (simp add: wfSpatter_def extend_fields)

text \<open>
  C7. While the simulator is active, a live slot whose \<open>y\<close> position after the position
  update is below \<open>-1.5\<close> has life exactly 0 at the end of the tick, whatever its life
  was. The position after the update is the value the buffer holds: the float32 nearest
  to the double sum of the slot's position and velocity; the slot ends the tick with
  that position.
\<close>

theorem retirement_invariant:
  assumes "isRunningRef v \<and> \<not> isEmergencyStoppedRef v \<and> hasToolRef v"
    and "spatterRef v = Some sp" and "wfSpatter sp" and "i < MAX_SPARKS"
    and "0 < lifes sp ! i"
    and "f32 N (dbl N (positions sp ! (i * 3 + 1) + vels sp ! (i * 3 + 1))) < - 1.5"
  shows "\<exists>sp'. spatterRef (spatterUpdate N random v) = Some sp' \<and>
           positions sp' ! (i * 3 + 1)
             = f32 N (dbl N (positions sp ! (i * 3 + 1) + vels sp ! (i * 3 + 1))) \<and>
           lifes sp' ! i = 0"
  using assms
    loop_retire [of "Spatter.extend sp \<lparr>spawned = 0, calls = 0\<rparr>" i N random
      "\<lfloor>dbl N (spatterDensityRef v * 20)\<rfloor>" "spatterLifeRef v"]
  by (simp add: spatterUpdate_def spatterLoop_def spatterPrefix_def Let_def extend_fields extend_wf)

theorem retirement_invariant_witness:
  "wfSpatter fallingPool \<and> lifes fallingPool ! 5 = 1 \<and>
   f32 ieee (dbl ieee (positions fallingPool ! (5 * 3 + 1) + vels fallingPool ! (5 * 3 + 1))) = - 2 \<and>
   (\<exists>sp'. spatterRef (spatterUpdate ieee missThenHit (viewerWith True False True fallingPool)) = Some sp' \<and>
      positions sp' ! (5 * 3 + 1) = - 2 \<and> lifes sp' ! 5 = 0)"
  using retirement_invariant [of "viewerWith True False True fallingPool" fallingPool 5 ieee missThenHit]
  by (simp add: viewerWith_def fallingPool_def wfSpatter_def MAX_SPARKS_def
      dbl_ieee_neg2 f32_ieee_neg2)

section \<open>The spawn budget\<close>































section \<open>The health overlay\<close>







end
